theory Spec2Isabelle
  imports Complex_Main "HOL-Library.Log_Nat"
begin

section \<open>JavaScript numbers\<close>

text \<open>
  The amounts of the game are JavaScript numbers, that is IEEE 754 binary64 values.  A
  finite binary64 value is a rational number, and the result of an addition or a
  subtraction is the exact result rounded to the nearest value with a significand of 53
  bits, ties going to the even significand.  The range of the exponent is not limited
  here: overflow to an infinity, subnormal numbers and \<^verbatim>\<open>NaN\<close> are left out, which
  does not matter for amounts of money.
\<close>

text \<open>Two to the power of an integer.\<close>

definition pow2 :: "int \<Rightarrow> rat" where
  "pow2 e = (if 0 \<le> e then 2 ^ nat e else 1 / 2 ^ nat (- e))"

text \<open>Rounding to the nearest integer, a tie to the even one.\<close>

definition round_half_even :: "rat \<Rightarrow> int" where
  "round_half_even x =
     (let f = \<lfloor>x\<rfloor>; d = x - of_int f
      in if d < 1 / 2 then f
         else if 1 / 2 < d then f + 1
         else if even f then f else f + 1)"

text \<open>The binary exponent of a positive number \<open>x\<close>: the \<open>k\<close> with \<open>2^k \<le> x < 2^(k+1)\<close>.\<close>

definition ilog2 :: "rat \<Rightarrow> int" where
  "ilog2 x = (if 1 \<le> x then bitlen \<lfloor>x\<rfloor> - 1 else - bitlen (\<lceil>1 / x\<rceil> - 1))"

text \<open>Rounding to binary64: the number is scaled to a significand of 53 bits and rounded.\<close>

definition binary64 :: "rat \<Rightarrow> rat" where
  "binary64 x =
     (if x = 0 then 0
      else (let e = ilog2 \<bar>x\<bar> - 52
            in sgn x * of_int (round_half_even (\<bar>x\<bar> / pow2 e)) * pow2 e))"

text \<open>The operators \<^verbatim>\<open>+\<close> and \<^verbatim>\<open>-\<close> on numbers.\<close>

definition js_add :: "rat \<Rightarrow> rat \<Rightarrow> rat" where
  "js_add x y = binary64 (x + y)"

definition js_sub :: "rat \<Rightarrow> rat \<Rightarrow> rat" where
  "js_sub x y = binary64 (x - y)"

text \<open>A whole number that a binary64 value holds exactly.\<close>

definition wholeNumber :: "rat \<Rightarrow> bool" where
  "wholeNumber x = (of_int \<lfloor>x\<rfloor> = x \<and> \<bar>x\<bar> < 2 ^ 53)"

section \<open>Data model of the game services\<close>

text \<open>
  The theory embeds the game logic of \<^verbatim>\<open>baseGame.service.ts\<close> (classes
  \<^verbatim>\<open>BaseGameService\<close> and \<^verbatim>\<open>BaseMultiplayerGameService\<close>), of
  \<^verbatim>\<open>cooperativeGame.service.ts\<close> (class \<^verbatim>\<open>CooperativeGameService\<close>) and the
  override of \<^verbatim>\<open>_simulateTurn\<close> in \<^verbatim>\<open>competitiveGame.service.ts\<close>.

  A service object is a record of the fields its handlers read and write; a handler takes
  the record and returns the updated one.  A JavaScript exception does not undo the
  assignments made before it, so a handler returns the state reached together with the
  exception, if any.  A method that a subclass overrides is called through
  \<^verbatim>\<open>this\<close>; the model selects the body by the field \<open>gameType\<close>, which tells the
  class of the service.  The field \<open>gamePolls\<close> is \<^verbatim>\<open>_polls\<close>.

  The calls to the rendering service, to the browser and to the server are appended to
  the field \<open>trace\<close>.  Whether a method of the rendering service returns or throws
  depends on the page and on data of the server; for each call it is given by a
  parameter \<open>R\<close> of the handler, a function of the calls made so far and of the call,
  and the theorems hold for every \<open>R\<close>.  Two methods of the rendering service are
  modelled as written: \<^verbatim>\<open>renderGameStateBanner\<close>, which only writes the banner, and
  \<^verbatim>\<open>renderSimulateButton\<close>, which throws for a state it does not know.  Requests to
  the server are asynchronous and alerts return, so neither throws.

  A button's \<^verbatim>\<open>value\<close> attribute is written by the rendering service from
  \<^verbatim>\<open>control.cost\<close>, so both \<^verbatim>\<open>event.target.value\<close> as an operand of \<^verbatim>\<open>-\<close>
  and \<^verbatim>\<open>parseFloat(event.target.value)\<close> are that number, which the event carries.
  The value \<^verbatim>\<open>undefined\<close> is \<open>None\<close>.  A type error names the property that was read
  from \<^verbatim>\<open>undefined\<close> or \<^verbatim>\<open>null\<close>.
\<close>

datatype GameState = Purchasing | Placing | Simulating | Results | Ended

datatype GameType = SinglePlayer | Cooperative | Competitive

datatype error = Thrown string | TypeError string

record Control =
  control_id :: string
  control_asset :: "string option"
  control_cost :: rat

record Asset =
  slug :: string

record Votes =
  vote_id :: string
  vote_votes :: "string list"

text \<open>
  What a handler reads from a jQuery event and from the page: the id and value of the
  clicked element, the id of the enclosing modal, whether that modal shows tiles, the id of
  the enclosing asset element, and the id of the asset name in the asset-controls modal.
\<close>

record event =
  target_id :: string
  target_value :: rat
  modalId :: "string option"
  tilesView :: bool
  assetId :: "string option"
  assetNameId :: "string option"

datatype effect =
    Alert string
  | BannerHtml string
  | ResultsHtml rat rat
  | RenderGameStateBanner GameState
  | RenderSimulateButton GameState
  | RenderTurnNumber
  | RenderBalance string
  | RenderEventLogTable string
  | RenderSpendFigures rat rat bool
  | RenderDisplay
  | RenderModalLoading string string
  | ToggleModal string
  | RenderControlPlacementModal "Control list"
  | RenderAvailableControlsModal "string option list" rat string
  | RenderImplementedControlsModal "Control list" string "Asset option"
  | GetOrganisationDetails
  | GetControls
  | GetNewControls
  | PostSimulateTurn
  | PatchAddControl string
  | PatchUpdateVotes "Votes list"

type_synonym rendering = "effect list \<Rightarrow> effect \<Rightarrow> error option"

text \<open>
  \<^verbatim>\<open>_polls\<close> is an object used as a dictionary from keys to polls.  The functions
  and arguments stored in a poll are not inspected by the service, so their types are
  parameters.
\<close>

record ('f, 'a) Poll =
  callback :: 'f
  args :: "'a list"

type_synonym ('f, 'a) Polls = "string \<Rightarrow> ('f, 'a) Poll option"

text \<open>
  The method that the modelled handlers register as a callback, and the arguments they
  give it.
\<close>

datatype pollCallback = HandleClickViewAvailableControls

datatype pollArg = ArgString string | ArgBool bool

record game =
  userId :: string
  gameType :: GameType
  state :: GameState
  moneyPerTurn :: rat
  members :: "string list"
  organisationControls :: "Control list"
  assets :: "Asset list"
  spendAvailable :: rat
  spendAllocated :: rat
  newControls :: "Control list"
  controlsToImplement :: "string option list"
  placingControl :: "Control option"
  votes :: "Votes list"
  gamePolls :: "(pollCallback, pollArg) Polls"
  trace :: "effect list"

definition emit :: "effect \<Rightarrow> game \<Rightarrow> game" where
  "emit e g = g\<lparr>trace := trace g @ [e]\<rparr>"

text \<open>A call to the rendering service: it is recorded, and \<open>R\<close> tells how it ends.\<close>

definition draw :: "rendering \<Rightarrow> effect \<Rightarrow> game \<Rightarrow> game \<times> error option" where
  "draw R e g = (emit e g, R (trace g) e)"

text \<open>The rendering service that never throws.\<close>

definition quiet :: rendering where
  "quiet = (\<lambda>t e. None)"

text \<open>Sequencing: the statements after one that threw are not run.\<close>

definition andThen ::
  "game \<times> error option \<Rightarrow> (game \<Rightarrow> game \<times> error option) \<Rightarrow> game \<times> error option" where
  "andThen r f = (case r of (g, None) \<Rightarrow> f g | (g, Some e) \<Rightarrow> (g, Some e))"

subsection \<open>JavaScript library functions\<close>

text \<open>\<^verbatim>\<open>String.prototype.split\<close> with a one-character separator.\<close>

fun split_str :: "char \<Rightarrow> string \<Rightarrow> string list" where
  "split_str sep [] = [[]]"
| "split_str sep (c # cs) =
     (if c = sep then [] # split_str sep cs
      else (case split_str sep cs of
              [] \<Rightarrow> [[c]]
            | w # ws \<Rightarrow> (c # w) # ws))"

text \<open>Reading an array element: \<^verbatim>\<open>undefined\<close> out of range.\<close>

definition nth_opt :: "'a list \<Rightarrow> nat \<Rightarrow> 'a option" where
  "nth_opt xs i = (if i < length xs then Some (xs ! i) else None)"

text \<open>\<^verbatim>\<open>Array.prototype.findIndex\<close>: \<open>None\<close> is the result \<open>-1\<close>.\<close>

fun findIndex :: "('a \<Rightarrow> bool) \<Rightarrow> 'a list \<Rightarrow> nat option" where
  "findIndex P [] = None"
| "findIndex P (x # xs) =
     (if P x then Some 0 else map_option Suc (findIndex P xs))"

text \<open>\<^verbatim>\<open>xs.splice(i, 1)\<close>.\<close>

definition splice1 :: "nat \<Rightarrow> 'a list \<Rightarrow> 'a list" where
  "splice1 i xs = take i xs @ drop (Suc i) xs"

text \<open>\<^verbatim>\<open>event.target.id.split('-')[1]\<close>.\<close>

definition controlIdOf :: "event \<Rightarrow> string option" where
  "controlIdOf ev = nth_opt (split_str CHR ''-'' (target_id ev)) 1"

definition viewModeOf :: "event \<Rightarrow> string" where
  "viewModeOf ev = (if tilesView ev then ''tiles'' else ''table'')"

text \<open>
  The constant \<^verbatim>\<open>AssetLocations\<close>, read at a key; it has the two environments,
  and the properties that every object inherits are disregarded.
\<close>

definition AssetLocations :: "string \<Rightarrow> Asset option" where
  "AssetLocations key =
     (if key = ''organisation'' then Some \<lparr>slug = ''organisation''\<rparr>
      else if key = ''internet'' then Some \<lparr>slug = ''internet''\<rparr>
      else None)"

section \<open>The multiplayer base service: polled callbacks\<close>

text \<open>\<^verbatim>\<open>_addPoll\<close>.\<close>

definition addPoll :: "string \<Rightarrow> 'f \<Rightarrow> 'a list \<Rightarrow> ('f, 'a) Polls \<Rightarrow> ('f, 'a) Polls" where
  "addPoll key cb as polls =
     (if polls key = None then polls(key \<mapsto> \<lparr>callback = cb, args = as\<rparr>) else polls)"

text \<open>
  \<^verbatim>\<open>_updatePoll\<close>: an omitted callback or argument list (\<open>None\<close>) keeps the stored
  one.
\<close>

definition updatePoll ::
  "string \<Rightarrow> 'f option \<Rightarrow> 'a list option \<Rightarrow> ('f, 'a) Polls \<Rightarrow> error + ('f, 'a) Polls" where
  "updatePoll key cb as polls =
     (case polls key of
        Some p \<Rightarrow>
          Inr (polls(key \<mapsto> \<lparr>callback = (case cb of Some f \<Rightarrow> f | None \<Rightarrow> callback p),
                               args = (case as of Some a \<Rightarrow> a | None \<Rightarrow> args p)\<rparr>))
      | None \<Rightarrow> Inl (Thrown ''Poll not found.''))"

text \<open>\<^verbatim>\<open>_removePoll\<close>.\<close>

definition removePoll :: "string \<Rightarrow> ('f, 'a) Polls \<Rightarrow> ('f, 'a) Polls" where
  "removePoll key polls = (if polls key \<noteq> None then polls(key := None) else polls)"

section \<open>The co-operative game service: voting\<close>

text \<open>\<^verbatim>\<open>_getVoteThreshold\<close>: \<^verbatim>\<open>Math.ceil(this.organisation.members.length / 2)\<close>.\<close>

definition getVoteThreshold :: "game \<Rightarrow> nat" where
  "getVoteThreshold g = nat \<lceil>real (length (members g)) / 2\<rceil>"

text \<open>
  \<^verbatim>\<open>_getVoteTally\<close>: \<^verbatim>\<open>this._votes[voteIndex].votes.length\<close>, a type error when
  the array has no element at that index.
\<close>

definition getVoteTally :: "nat \<Rightarrow> game \<Rightarrow> error + nat" where
  "getVoteTally voteIndex g =
     (case nth_opt (votes g) voteIndex of
        None \<Rightarrow> Inl (TypeError ''votes'')
      | Some v \<Rightarrow> Inr (length (vote_votes v)))"

text \<open>\<^verbatim>\<open>_updateVotes\<close>: the tallies are sent to the server.\<close>

definition updateVotes :: "game \<Rightarrow> game" where
  "updateVotes g = emit (PatchUpdateVotes (votes g)) g"

text \<open>\<^verbatim>\<open>_toggleVote\<close>: returns the index it worked on and the new state.\<close>

definition toggleVote :: "string \<Rightarrow> game \<Rightarrow> nat \<times> game" where
  "toggleVote voteId g =
     (case findIndex (\<lambda>vote. vote_id vote = voteId) (votes g) of
        None \<Rightarrow>
          (length (votes g),
           updateVotes (g\<lparr>votes := votes g @ [\<lparr>vote_id = voteId, vote_votes = [userId g]\<rparr>]\<rparr>))
      | Some voteIndex \<Rightarrow>
          (if \<not> (length (vote_votes (votes g ! voteIndex)) \<ge> getVoteThreshold g)
           then (case findIndex (\<lambda>voterId. voterId = userId g) (vote_votes (votes g ! voteIndex)) of
                   Some userVoteIdx \<Rightarrow>
                     (let filtered = filter (\<lambda>voterId. voterId \<noteq> userId g)
                                            (vote_votes (votes g ! voteIndex));
                          votes1 = (votes g)[voteIndex := (votes g ! voteIndex)\<lparr>vote_votes := filtered\<rparr>];
                          votes2 = (if filtered = [] then splice1 voteIndex votes1 else votes1)
                      in (voteIndex, updateVotes (g\<lparr>votes := votes2\<rparr>)))
                 | None \<Rightarrow>
                     (voteIndex,
                      updateVotes (g\<lparr>votes := (votes g)[voteIndex := (votes g ! voteIndex)
                          \<lparr>vote_votes := vote_votes (votes g ! voteIndex) @ [userId g]\<rparr>]\<rparr>)))
           else (voteIndex, g)))"


text \<open>
  The test \<^verbatim>\<open>this._getVoteTally(voteIndex) >= this._getVoteThreshold()\<close> of the
  voting handlers.
\<close>

definition thresholdReached :: "nat \<Rightarrow> game \<Rightarrow> error + bool" where
  "thresholdReached voteIndex g =
     (case getVoteTally voteIndex g of
        Inl e \<Rightarrow> Inl e
      | Inr tally \<Rightarrow> Inr (tally \<ge> getVoteThreshold g))"

section \<open>The base game service\<close>

subsection \<open>Rendering a game state, placing controls, simulating a turn\<close>

text \<open>
  \<^verbatim>\<open>renderSimulateButton\<close> of the rendering service: its switch has no case for the
  state \<open>Ended\<close> and throws there.  The overrides of the multiplayer rendering services
  call it first.
\<close>

definition renderSimulateButton :: "GameState \<Rightarrow> game \<Rightarrow> game \<times> error option" where
  "renderSimulateButton st g =
     (emit (RenderSimulateButton st) g,
      (case st of
         Ended \<Rightarrow> Some (Thrown ''Unknown game state!'')
       | _ \<Rightarrow> None))"

text \<open>
  \<^verbatim>\<open>_renderGameState\<close>, \<^verbatim>\<open>_placeControls\<close> and \<^verbatim>\<open>_simulateTurn\<close> call
  each other: rendering \<open>Placing\<close> places the controls, placing with nothing left to
  place simulates the turn, and simulating in the base service renders \<open>Simulating\<close>.
  The competitive service overrides \<^verbatim>\<open>_simulateTurn\<close> and only sends the request.
  The response of the server to a request arrives later and is not part of the call.
  Entering the purchasing state ends with a warning about new threat actors, which
  concerns the threat actors only and is left out.
\<close>

function renderGameState :: "rendering \<Rightarrow> GameState \<Rightarrow> game \<Rightarrow> game \<times> error option"
  and placeControls :: "rendering \<Rightarrow> game \<Rightarrow> game \<times> error option"
  and simulateTurn :: "rendering \<Rightarrow> game \<Rightarrow> game \<times> error option"
where
  "renderGameState R Purchasing g =
     andThen (renderSimulateButton Purchasing (emit (RenderGameStateBanner Purchasing) g))
       (\<lambda>g1. let g2 = g1\<lparr>spendAvailable := moneyPerTurn g1, spendAllocated := 0\<rparr>
             in andThen (draw R RenderTurnNumber g2)
               (\<lambda>g3. andThen (draw R (RenderBalance ''current-balance'') g3)
               (\<lambda>g4. andThen (draw R (RenderEventLogTable ''event-log'') g4)
               (\<lambda>g5. andThen (draw R (RenderSpendFigures (spendAvailable g5)
                                         (spendAllocated g5) True) g5)
               (\<lambda>g6. draw R RenderDisplay g6)))))"
| "renderGameState R Placing g =
     andThen (renderSimulateButton Placing (emit (RenderGameStateBanner Placing) g))
       (\<lambda>g1. placeControls R g1)"
| "renderGameState R Simulating g =
     andThen (renderSimulateButton Simulating (emit (RenderGameStateBanner Simulating) g))
       (\<lambda>g1. andThen (draw R (RenderSpendFigures (spendAvailable g1)
                                 (spendAllocated g1) False) g1)
       (\<lambda>g2. andThen (draw R (RenderModalLoading ''turn-results'' ''turn-events'')
                         (emit GetOrganisationDetails g2))
       (\<lambda>g3. draw R (ToggleModal ''turn-results'') g3)))"
| "renderGameState R Results g =
     andThen (renderSimulateButton Results (emit (RenderGameStateBanner Results) g))
       (\<lambda>g1. andThen (draw R (RenderEventLogTable ''turn-events'')
                         (emit (ResultsHtml (spendAllocated g1) (spendAvailable g1)) g1))
       (\<lambda>g2. draw R (RenderBalance ''current-balance'') g2))"
| "renderGameState R Ended g =
     andThen (renderSimulateButton Ended (emit (RenderGameStateBanner Ended) g))
       (\<lambda>g1. andThen (draw R (RenderEventLogTable ''game-events'') g1)
       (\<lambda>g2. andThen (draw R (RenderBalance ''final-balance'') g2)
       (\<lambda>g3. draw R (ToggleModal ''end-of-game'') g3)))"
| "placeControls R g =
     (if controlsToImplement g \<noteq> []
      then draw R (RenderControlPlacementModal
                    (filter (\<lambda>c. Some (control_id c) \<in> set (controlsToImplement g))
                            (newControls g))) g
      else simulateTurn R g)"
| "simulateTurn R g =
     (case gameType g of
        Competitive \<Rightarrow> (emit PostSimulateTurn g, None)
      | _ \<Rightarrow> andThen (renderGameState R Simulating g)
               (\<lambda>g1. (emit PostSimulateTurn g1, None)))"
  by pat_completeness auto
termination
  by (relation "measure (\<lambda>x. case x of
          Inl (R, st, g) \<Rightarrow> (if st = Placing then 3 else 0)
        | Inr (Inl (R, g)) \<Rightarrow> 2
        | Inr (Inr (R, g)) \<Rightarrow> 1)") auto

declare renderGameState.simps [simp del] placeControls.simps [simp del]
  simulateTurn.simps [simp del]

subsection \<open>Event handlers\<close>


text \<open>
  \<^verbatim>\<open>_handleClickViewAvailableControls\<close>.  The base service fetches the controls or,
  without a request, draws the modal from the cached ones.  The co-operative service
  overrides it: it draws the modal with the votes and registers itself for polling.
\<close>

definition handleClickViewAvailableControls ::
  "rendering \<Rightarrow> string \<Rightarrow> bool \<Rightarrow> game \<Rightarrow> game \<times> error option" where
  "handleClickViewAvailableControls R mode makeRequest g =
     (case gameType g of
        Cooperative \<Rightarrow>
          andThen (draw R (RenderAvailableControlsModal (controlsToImplement g)
                             (spendAvailable g) mode) g)
            (\<lambda>g1. (g1\<lparr>gamePolls := addPoll ''new-controls'' HandleClickViewAvailableControls
                                      [ArgString mode, ArgBool False] (gamePolls g1)\<rparr>, None))
      | _ \<Rightarrow>
          if makeRequest then (emit GetNewControls g, None)
          else draw R (RenderAvailableControlsModal (controlsToImplement g)
                         (spendAvailable g) mode) g)"

text \<open>\<^verbatim>\<open>_handleClickViewImplementedControls\<close>: the controls are fetched.\<close>

definition handleClickViewImplementedControls :: "string \<Rightarrow> game \<Rightarrow> game \<times> error option" where
  "handleClickViewImplementedControls mode g = (emit GetControls g, None)"

text \<open>
  \<^verbatim>\<open>_showAssetControls\<close>: the filter over the controls of the organisation reads
  \<^verbatim>\<open>asset.slug\<close> for each of them, a type error when there is no asset.
\<close>

definition showAssetControls ::
  "rendering \<Rightarrow> Asset option \<Rightarrow> string \<Rightarrow> game \<Rightarrow> game \<times> error option" where
  "showAssetControls R asset mode g =
     (case asset of
        None \<Rightarrow>
          if organisationControls g = []
          then draw R (RenderImplementedControlsModal [] mode None) g
          else (g, Some (TypeError ''slug''))
      | Some a \<Rightarrow>
          draw R (RenderImplementedControlsModal
                    (filter (\<lambda>c. control_asset c = Some (slug a)) (organisationControls g))
                    mode (Some a)) g)"

text \<open>
  The end of \<^verbatim>\<open>_handleClickImplementControl\<close> and of
  \<^verbatim>\<open>_handleClickRemoveControl\<close>: the modal that holds the button is drawn again, in
  its view mode; an unknown modal id is an exception.
\<close>

definition rerenderModal :: "rendering \<Rightarrow> event \<Rightarrow> game \<Rightarrow> game \<times> error option" where
  "rerenderModal R ev g =
     (let mid = (case modalId ev of
                   None \<Rightarrow> ''new-controls''
                 | Some m \<Rightarrow> if m = [] then ''new-controls'' else m)
      in if mid = ''new-controls''
           then handleClickViewAvailableControls R (viewModeOf ev) False g
         else if mid = ''implemented-controls''
           then handleClickViewImplementedControls (viewModeOf ev) g
         else if mid = ''asset-controls''
           then showAssetControls R
                  (find (\<lambda>asset. Some (slug asset) = assetNameId ev) (assets g))
                  (viewModeOf ev) g
         else (g, Some (Thrown ''Could not get parent table ID'')))"

text \<open>\<^verbatim>\<open>_handleClickImplementControl\<close>: stage a control.\<close>

definition handleClickImplementControl ::
  "rendering \<Rightarrow> event \<Rightarrow> game \<Rightarrow> game \<times> error option" where
  "handleClickImplementControl R ev g =
     (let g1 = (if js_sub (spendAvailable g) (target_value ev) \<ge> 0
                then g\<lparr>spendAvailable := js_sub (spendAvailable g) (target_value ev),
                       spendAllocated := js_add (spendAllocated g) (target_value ev),
                       controlsToImplement := controlsToImplement g @ [controlIdOf ev]\<rparr>
                else g)
      in andThen (draw R (RenderSpendFigures (spendAvailable g1) (spendAllocated g1) True) g1)
           (\<lambda>g2. rerenderModal R ev g2))"

text \<open>\<^verbatim>\<open>_handleClickRemoveControl\<close>: de-stage a control.\<close>

definition handleClickRemoveControl ::
  "rendering \<Rightarrow> event \<Rightarrow> game \<Rightarrow> game \<times> error option" where
  "handleClickRemoveControl R ev g =
     (let g1 = g\<lparr>spendAvailable := js_add (spendAvailable g) (target_value ev),
                  spendAllocated := js_sub (spendAllocated g) (target_value ev)\<rparr>;
          g2 = g1\<lparr>controlsToImplement :=
                    filter (\<lambda>i. i \<noteq> controlIdOf ev) (controlsToImplement g1)\<rparr>
      in andThen (rerenderModal R ev g2)
           (\<lambda>g3. draw R (RenderSpendFigures (spendAvailable g3) (spendAllocated g3) True) g3))"

text \<open>
  \<^verbatim>\<open>_handleClickAssetIcon\<close>.  In the placing state the handler first reads
  \<^verbatim>\<open>this._placingControl.asset\<close>, which is a type error when no control is being
  placed.
\<close>

definition handleClickAssetIcon ::
  "rendering \<Rightarrow> event \<Rightarrow> game \<Rightarrow> game \<times> error option" where
  "handleClickAssetIcon R ev g =
     (case state g of
        Purchasing \<Rightarrow>
          showAssetControls R
            (case find (\<lambda>asset. Some (slug asset) = assetId ev) (assets g) of
               Some a \<Rightarrow> Some a
             | None \<Rightarrow> (case assetId ev of
                          None \<Rightarrow> None
                        | Some key \<Rightarrow> AssetLocations key))
            ''tiles'' g
      | Placing \<Rightarrow>
          (case placingControl g of
             None \<Rightarrow> (g, Some (TypeError ''asset''))
           | Some pc \<Rightarrow>
               if control_asset pc = assetId ev
               then (let g1 = g\<lparr>controlsToImplement :=
                                   filter (\<lambda>i. Some (control_id pc) \<noteq> i) (controlsToImplement g)\<rparr>;
                         g2 = emit (PatchAddControl (control_id pc)) g1;
                         g3 = g2\<lparr>placingControl := None\<rparr>;
                         g4 = emit (BannerHtml ''Placing'') g3;
                         g5 = emit (Alert ''Correct!'') g4
                     in placeControls R g5)
               else (emit (Alert ''Incorrect! Please try again.'') g, None))
      | _ \<Rightarrow> (g, None))"

section \<open>The co-operative game service: the simulate-turn button\<close>



section \<open>Sequences of clicks and sample inputs\<close>

datatype click = Implement rendering event | Remove rendering event

text \<open>
  A sequence of clicks on the implement and remove buttons; the state left by a handler
  that threw is the state the next click finds.
\<close>

fun clicks :: "click list \<Rightarrow> game \<Rightarrow> game" where
  "clicks [] g = g"
| "clicks (Implement R ev # cs) g = clicks cs (fst (handleClickImplementControl R ev g))"
| "clicks (Remove R ev # cs) g = clicks cs (fst (handleClickRemoveControl R ev g))"

text \<open>The amount on the button of a click.\<close>

fun click_value :: "click \<Rightarrow> rat" where
  "click_value (Implement R ev) = target_value ev"
| "click_value (Remove R ev) = target_value ev"

text \<open>
  The ledger of a game holds whole numbers of magnitude at most \<open>B\<close> that add up to the
  allowance \<open>M\<close>.
\<close>

definition ledgerWithin :: "rat \<Rightarrow> rat \<Rightarrow> game \<Rightarrow> bool" where
  "ledgerWithin B M g =
     (moneyPerTurn g = M
      \<and> of_int \<lfloor>spendAvailable g\<rfloor> = spendAvailable g
      \<and> of_int \<lfloor>spendAllocated g\<rfloor> = spendAllocated g
      \<and> \<bar>spendAvailable g\<bar> \<le> B \<and> \<bar>spendAllocated g\<bar> \<le> B
      \<and> spendAvailable g + spendAllocated g = M)"

text \<open>
  A single-player game with an allowance of 1000 per turn and three members, at the start
  of a round; two of its controls cost 400 and 700, two cost what JavaScript reads from
  \<^verbatim>\<open>0.1\<close> and \<^verbatim>\<open>0.2\<close>.  Then the click on the button that the rendering service
  draws for a control in the new-controls modal.
\<close>

definition sampleGame :: game where
  "sampleGame =
     \<lparr>userId = ''u1'', gameType = SinglePlayer, state = Purchasing, moneyPerTurn = 1000,
      members = [''u1'', ''u2'', ''u3''],
      organisationControls = [],
      assets = [\<lparr>slug = ''server''\<rparr>, \<lparr>slug = ''laptop''\<rparr>],
      spendAvailable = 1000, spendAllocated = 0,
      newControls = [\<lparr>control_id = ''a'', control_asset = Some ''server'', control_cost = 400\<rparr>,
                     \<lparr>control_id = ''b'', control_asset = Some ''laptop'', control_cost = 700\<rparr>,
                     \<lparr>control_id = ''c'', control_asset = Some ''server'',
                        control_cost = binary64 (1 / 10)\<rparr>,
                     \<lparr>control_id = ''d'', control_asset = Some ''laptop'',
                        control_cost = binary64 (2 / 10)\<rparr>],
      controlsToImplement = [], placingControl = None, votes = [],
      gamePolls = Map.empty, trace = []\<rparr>"

definition buttonClick :: "string \<Rightarrow> rat \<Rightarrow> event" where
  "buttonClick cid cost =
     \<lparr>target_id = ''control-'' @ cid, target_value = cost,
      modalId = Some ''new-controls'', tilesView = True, assetId = None,
      assetNameId = None\<rparr>"

text \<open>The sample game with other members and vote records.\<close>

definition votingGame :: "string list \<Rightarrow> Votes list \<Rightarrow> game" where
  "votingGame ms vs = sampleGame\<lparr>members := ms, votes := vs\<rparr>"

text \<open>The click on the icon of an asset.\<close>

definition assetClick :: "string \<Rightarrow> event" where
  "assetClick a =
     \<lparr>target_id = [], target_value = 0, modalId = None,
      tilesView = False, assetId = Some a, assetNameId = None\<rparr>"

text \<open>The sample game while the control \<open>a\<close>, which belongs on the server, is placed.\<close>

definition placingGame :: game where
  "placingGame =
     sampleGame\<lparr>state := Placing, spendAvailable := 600, spendAllocated := 400,
       controlsToImplement := [Some ''a''],
       placingControl := Some \<lparr>control_id = ''a'', control_asset = Some ''server'',
                                control_cost = 400\<rparr>\<rparr>"

text \<open>
  Two states of a game agree on the allowance, the ledger, the staged controls, the state,
  the control being placed, the game type and the controls on offer: drawing, fetching
  and registering a poll change none of these.
\<close>

definition sameSelection :: "game \<Rightarrow> game \<Rightarrow> bool" where
  "sameSelection g g' =
     (moneyPerTurn g' = moneyPerTurn g \<and> spendAvailable g' = spendAvailable g
      \<and> spendAllocated g' = spendAllocated g
      \<and> controlsToImplement g' = controlsToImplement g
      \<and> state g' = state g \<and> placingControl g' = placingControl g
      \<and> gameType g' = gameType g \<and> newControls g' = newControls g)"

section \<open>Facts about rounding\<close>

lemma pow2_powi: "pow2 e = 2 powi e"
  by (simp add: pow2_def power_int_def inverse_eq_divide power_one_over)

lemma pow2_pos: "0 < pow2 e"
  by (simp add: pow2_def)

lemma pow2_mono: "a \<le> b \<Longrightarrow> pow2 a \<le> pow2 b"
  by (simp add: pow2_powi power_int_increasing)

lemma round_half_even_of_int: "round_half_even (of_int k) = k"
  by (simp add: round_half_even_def)

lemma round_half_even_pos: "1 \<le> x \<Longrightarrow> 0 < round_half_even x"
proof -
  assume "1 \<le> x"
  then have "1 \<le> \<lfloor>x\<rfloor>" by linarith
  then show ?thesis by (simp add: round_half_even_def Let_def)
qed

text \<open>The exponent found is not too large: the scaled number is at least \<open>2^52\<close>.\<close>

lemma ilog2_lower: "0 < x \<Longrightarrow> pow2 (ilog2 x) \<le> x"
proof (cases "1 \<le> x")
  case True
  then have f: "0 < \<lfloor>x\<rfloor>" by linarith
  from bitlen_bounds [OF f] have "2 ^ nat (bitlen \<lfloor>x\<rfloor> - 1) \<le> \<lfloor>x\<rfloor>" ..
  then have "(of_int (2 ^ nat (bitlen \<lfloor>x\<rfloor> - 1)) :: rat) \<le> of_int \<lfloor>x\<rfloor>"
    by (simp only: of_int_le_iff)
  also have "\<dots> \<le> x" by simp
  finally have "(2::rat) ^ nat (bitlen \<lfloor>x\<rfloor> - 1) \<le> x" by simp
  moreover from f have "0 \<le> bitlen \<lfloor>x\<rfloor> - 1"
    using bitlen_eq_zero_iff [of "\<lfloor>x\<rfloor>"] bitlen_nonneg [of "\<lfloor>x\<rfloor>"] by linarith
  ultimately show ?thesis using True by (simp add: ilog2_def pow2_def)
next
  case False
  assume pos: "0 < x"
  let ?n = "\<lceil>1 / x\<rceil> - 1"
  from False pos have "1 < 1 / x" by (simp add: field_simps)
  then have n: "0 < ?n" by linarith
  from bitlen_bounds [OF n] have "?n < 2 ^ nat (bitlen ?n)" ..
  then have "\<lceil>1 / x\<rceil> \<le> 2 ^ nat (bitlen ?n)" by linarith
  then have "(of_int \<lceil>1 / x\<rceil> :: rat) \<le> of_int (2 ^ nat (bitlen ?n))"
    by (simp only: of_int_le_iff)
  moreover have "1 / x \<le> of_int \<lceil>1 / x\<rceil>" by (rule le_of_int_ceiling)
  ultimately have "1 / x \<le> of_int (2 ^ nat (bitlen ?n))" by (rule order_trans [rotated])
  then have le: "1 / x \<le> 2 ^ nat (bitlen ?n)" by simp
  have "1 / 2 ^ nat (bitlen ?n) \<le> x"
    using le pos by (simp add: field_simps)
  moreover from n have "0 < bitlen ?n"
    using bitlen_eq_zero_iff [of ?n] bitlen_nonneg [of ?n] by linarith
  ultimately show ?thesis using False by (simp add: ilog2_def pow2_def)
qed

text \<open>Rounding keeps the sign: a difference is rounded to zero only when it is zero.\<close>

lemma binary64_pos: "0 < x \<Longrightarrow> 0 < binary64 x"
proof -
  assume pos: "0 < x"
  let ?e = "ilog2 \<bar>x\<bar> - 52"
  have "pow2 ?e \<le> pow2 (ilog2 x)"
    using pos by (simp add: pow2_mono)
  also have "\<dots> \<le> x" using pos by (rule ilog2_lower)
  finally have "1 \<le> \<bar>x\<bar> / pow2 ?e"
    using pos pow2_pos [of ?e] by (simp add: field_simps)
  then have "0 < round_half_even (\<bar>x\<bar> / pow2 ?e)"
    by (rule round_half_even_pos)
  then show ?thesis
    using pos pow2_pos [of ?e] by (simp add: binary64_def Let_def)
qed

lemma binary64_minus: "binary64 (- x) = - binary64 x"
  by (simp add: binary64_def Let_def)

lemma binary64_nonneg_iff: "0 \<le> binary64 x \<longleftrightarrow> 0 \<le> x"
proof (cases "0 < x")
  case True
  then show ?thesis using binary64_pos [of x] by simp
next
  case False
  show ?thesis
  proof (cases "x = 0")
    case True
    then show ?thesis by (simp add: binary64_def)
  next
    case False
    with \<open>\<not> 0 < x\<close> have "0 < - x" by simp
    then have "0 < binary64 (- x)" by (rule binary64_pos)
    then show ?thesis using \<open>0 < - x\<close> by (simp add: binary64_minus)
  qed
qed

text \<open>An integer below \<open>2^53\<close> in magnitude is a binary64 value.\<close>

lemma binary64_of_int:
  assumes "\<bar>n\<bar> < 2 ^ 53"
  shows "binary64 (of_int n) = of_int n"
proof (cases "n = 0")
  case True
  then show ?thesis by (simp add: binary64_def)
next
  case False
  let ?m = "\<bar>n\<bar>"
  from False have m: "0 < ?m" by simp
  then have one: "(1::rat) \<le> \<bar>of_int n\<bar>" by (simp flip: of_int_abs)
  have fl: "\<lfloor>\<bar>of_int n :: rat\<bar>\<rfloor> = ?m" by (simp flip: of_int_abs)
  from bitlen_bounds [OF m] have "2 ^ nat (bitlen ?m - 1) \<le> ?m" ..
  with assms have "(2::int) ^ nat (bitlen ?m - 1) < 2 ^ 53" by linarith
  then have "nat (bitlen ?m - 1) < 53"
    by (rule power_less_imp_less_exp [rotated]) simp
  moreover from m have "1 \<le> bitlen ?m"
    using bitlen_eq_zero_iff [of ?m] bitlen_nonneg [of ?m] by linarith
  ultimately have e: "bitlen ?m - 1 - 52 \<le> 0" by linarith
  define k where "k = nat (52 - (bitlen ?m - 1))"
  have il: "ilog2 \<bar>of_int n :: rat\<bar> - 52 = - int k"
    using one e by (simp add: ilog2_def fl k_def)
  have p: "pow2 (- int k) = 1 / 2 ^ k"
    by (cases "k = 0") (simp_all add: pow2_def)
  have "\<bar>of_int n :: rat\<bar> / pow2 (- int k) = of_int (?m * 2 ^ k)"
    by (simp add: p)
  then have r: "round_half_even (\<bar>of_int n :: rat\<bar> / pow2 (- int k)) = ?m * 2 ^ k"
    by (simp only: round_half_even_of_int)
  have "binary64 (of_int n)
          = sgn (of_int n) * of_int (round_half_even (\<bar>of_int n :: rat\<bar> / pow2 (- int k)))
              * pow2 (- int k)"
    using False by (simp only: binary64_def Let_def il of_int_eq_0_iff if_False)
  also have "\<dots> = sgn (of_int n) * of_int (?m * 2 ^ k) * (1 / 2 ^ k)"
    by (simp only: r) (simp only: p)
  also have "\<dots> = sgn (of_int n) * \<bar>of_int n\<bar>" by simp
  also have "\<dots> = of_int n" by (rule sgn_mult_abs)
  finally show ?thesis .
qed

lemma binary64_whole: "wholeNumber x \<Longrightarrow> binary64 x = x"
proof -
  assume w: "wholeNumber x"
  then have x: "x = of_int \<lfloor>x\<rfloor>" and b: "\<bar>x\<bar> < 2 ^ 53"
    unfolding wholeNumber_def by (rule sym [OF conjunct1], rule conjunct2)
  from b x have "(of_int \<bar>\<lfloor>x\<rfloor>\<bar> :: rat) < of_int (2 ^ 53)"
    by (metis of_int_abs of_int_numeral of_int_power)
  then have "\<bar>\<lfloor>x\<rfloor>\<bar> < 2 ^ 53" by (simp only: of_int_less_iff)
  then have "binary64 (of_int \<lfloor>x\<rfloor>) = of_int \<lfloor>x\<rfloor>" by (rule binary64_of_int)
  with x show ?thesis by simp
qed

lemma whole_diff:
  "of_int \<lfloor>x\<rfloor> = x \<Longrightarrow> of_int \<lfloor>y\<rfloor> = y \<Longrightarrow> of_int \<lfloor>x - y\<rfloor> = (x - y :: rat)"
  by (metis floor_of_int of_int_diff)

lemma whole_add:
  "of_int \<lfloor>x\<rfloor> = x \<Longrightarrow> of_int \<lfloor>y\<rfloor> = y \<Longrightarrow> of_int \<lfloor>x + y\<rfloor> = (x + y :: rat)"
  by (metis floor_of_int of_int_add)

section \<open>Facts about the handlers\<close>

lemma andThen_preserves:
  assumes "P (fst r)" and "\<And>g. P g \<Longrightarrow> P (fst (f g))"
  shows "P (fst (andThen r f))"
  using assms by (cases r; cases "snd r") (auto simp: andThen_def)

lemma andThen_simps:
  "andThen (g, None) f = f g"
  "andThen (g, Some e) f = (g, Some e)"
  by (simp_all add: andThen_def)

lemma sameSelection_refl: "sameSelection g g"
  by (simp add: sameSelection_def)

lemma sameSelection_emit: "sameSelection g g' \<Longrightarrow> sameSelection g (emit e g')"
  by (simp add: sameSelection_def emit_def)

lemma sameSelection_draw: "sameSelection g g' \<Longrightarrow> sameSelection g (fst (draw R e g'))"
  by (simp add: sameSelection_def draw_def emit_def)


lemma sameSelection_andThen:
  assumes "sameSelection g (fst r)"
    and "\<And>g'. sameSelection g g' \<Longrightarrow> sameSelection g (fst (f g'))"
  shows "sameSelection g (fst (andThen r f))"
  using assms by (rule andThen_preserves)

lemma sameSelection_polls:
  "sameSelection g g' \<Longrightarrow> sameSelection g (g'\<lparr>gamePolls := ps\<rparr>)"
  by (simp add: sameSelection_def)

lemma sameSelection_viewAvailable:
  assumes "sameSelection g g'"
  shows "sameSelection g (fst (handleClickViewAvailableControls R mode req g'))"
proof (cases "gameType g' = Cooperative")
  case True
  then have "handleClickViewAvailableControls R mode req g'
      = andThen (draw R (RenderAvailableControlsModal (controlsToImplement g')
                           (spendAvailable g') mode) g')
          (\<lambda>g1. (g1\<lparr>gamePolls := addPoll ''new-controls'' HandleClickViewAvailableControls
                                  [ArgString mode, ArgBool False] (gamePolls g1)\<rparr>, None))"
    by (simp add: handleClickViewAvailableControls_def)
  then show ?thesis
    using assms by (simp add: sameSelection_andThen sameSelection_draw sameSelection_polls)
next
  case False
  then have "handleClickViewAvailableControls R mode req g'
      = (if req then (emit GetNewControls g', None)
         else draw R (RenderAvailableControlsModal (controlsToImplement g')
                        (spendAvailable g') mode) g')"
    by (cases "gameType g'") (simp_all add: handleClickViewAvailableControls_def)
  then show ?thesis
    using assms by (simp add: sameSelection_draw sameSelection_emit)
qed

lemma sameSelection_showAsset:
  "sameSelection g g' \<Longrightarrow> sameSelection g (fst (showAssetControls R a mode g'))"
  by (cases a) (simp_all add: showAssetControls_def sameSelection_draw)

lemma sameSelection_rerender:
  "sameSelection g g' \<Longrightarrow> sameSelection g (fst (rerenderModal R ev g'))"
  by (simp add: rerenderModal_def Let_def handleClickViewImplementedControls_def
        sameSelection_viewAvailable sameSelection_showAsset sameSelection_emit)

lemma implement_selection:
  "sameSelection
     (if target_value ev \<le> spendAvailable g
      then g\<lparr>spendAvailable := js_sub (spendAvailable g) (target_value ev),
             spendAllocated := js_add (spendAllocated g) (target_value ev),
             controlsToImplement := controlsToImplement g @ [controlIdOf ev]\<rparr>
      else g)
     (fst (handleClickImplementControl R ev g))"
proof -
  have guard: "0 \<le> js_sub (spendAvailable g) (target_value ev)
               \<longleftrightarrow> target_value ev \<le> spendAvailable g"
    by (simp add: js_sub_def binary64_nonneg_iff)
  show ?thesis
    unfolding handleClickImplementControl_def Let_def guard
    by (intro sameSelection_andThen sameSelection_draw sameSelection_rerender
          sameSelection_refl)
qed

lemma implement_fields:
  "moneyPerTurn (fst (handleClickImplementControl R ev g)) = moneyPerTurn g"
  "spendAvailable (fst (handleClickImplementControl R ev g)) =
     (if target_value ev \<le> spendAvailable g
      then js_sub (spendAvailable g) (target_value ev) else spendAvailable g)"
  "spendAllocated (fst (handleClickImplementControl R ev g)) =
     (if target_value ev \<le> spendAvailable g
      then js_add (spendAllocated g) (target_value ev) else spendAllocated g)"
  "controlsToImplement (fst (handleClickImplementControl R ev g)) =
     (if target_value ev \<le> spendAvailable g then controlsToImplement g @ [controlIdOf ev]
      else controlsToImplement g)"
  "state (fst (handleClickImplementControl R ev g)) = state g"
  using implement_selection [of ev g R]
  by (simp_all add: sameSelection_def split: if_splits)

lemma remove_selection:
  "sameSelection
     (g\<lparr>spendAvailable := js_add (spendAvailable g) (target_value ev),
        spendAllocated := js_sub (spendAllocated g) (target_value ev),
        controlsToImplement := filter (\<lambda>i. i \<noteq> controlIdOf ev) (controlsToImplement g)\<rparr>)
     (fst (handleClickRemoveControl R ev g))"
  unfolding handleClickRemoveControl_def Let_def
  by (intro sameSelection_andThen sameSelection_draw sameSelection_rerender)
     (simp add: sameSelection_def)

lemma remove_fields:
  "moneyPerTurn (fst (handleClickRemoveControl R ev g)) = moneyPerTurn g"
  "spendAvailable (fst (handleClickRemoveControl R ev g))
     = js_add (spendAvailable g) (target_value ev)"
  "spendAllocated (fst (handleClickRemoveControl R ev g))
     = js_sub (spendAllocated g) (target_value ev)"
  "controlsToImplement (fst (handleClickRemoveControl R ev g)) =
     filter (\<lambda>i. i \<noteq> controlIdOf ev) (controlsToImplement g)"
  using remove_selection [of ev g R]
  by (simp_all add: sameSelection_def)

lemma purchasing_entry:
  "moneyPerTurn (fst (renderGameState R Purchasing g)) = moneyPerTurn g
   \<and> spendAvailable (fst (renderGameState R Purchasing g)) = moneyPerTurn g
   \<and> spendAllocated (fst (renderGameState R Purchasing g)) = 0"
proof -
  let ?g = "g\<lparr>spendAvailable := moneyPerTurn g, spendAllocated := 0\<rparr>"
  have "sameSelection ?g (fst (renderGameState R Purchasing g))"
    by (simp add: renderGameState.simps renderSimulateButton_def andThen_simps Let_def)
       (intro sameSelection_andThen sameSelection_draw, simp add: sameSelection_def emit_def)
  then show ?thesis by (simp add: sameSelection_def)
qed

text \<open>One click keeps a ledger of whole numbers exact, with a bound that grows by the amount.\<close>

lemma ledgerWithin_implement:
  assumes "ledgerWithin B M g"
    and "of_int \<lfloor>target_value ev\<rfloor> = target_value ev"
    and "B + \<bar>target_value ev\<bar> < 2 ^ 53"
  shows "ledgerWithin (B + \<bar>target_value ev\<bar>) M (fst (handleClickImplementControl R ev g))"
proof -
  let ?a = "spendAvailable g" and ?b = "spendAllocated g" and ?c = "target_value ev"
  from assms(1) have wa: "of_int \<lfloor>?a\<rfloor> = ?a" and wb: "of_int \<lfloor>?b\<rfloor> = ?b"
    and ba: "\<bar>?a\<bar> \<le> B" and bb: "\<bar>?b\<bar> \<le> B" and sum: "?a + ?b = M"
    and m: "moneyPerTurn g = M"
    by (simp_all add: ledgerWithin_def)
  have "wholeNumber (?a - ?c)"
    using whole_diff [OF wa assms(2)] ba assms(3) by (simp add: wholeNumber_def)
  then have sub: "js_sub ?a ?c = ?a - ?c"
    by (simp add: js_sub_def binary64_whole)
  have "wholeNumber (?b + ?c)"
    using whole_add [OF wb assms(2)] bb assms(3) by (simp add: wholeNumber_def)
  then have add: "js_add ?b ?c = ?b + ?c"
    by (simp add: js_add_def binary64_whole)
  have b1: "\<bar>?a - ?c\<bar> \<le> B + \<bar>?c\<bar>" and b2: "\<bar>?b + ?c\<bar> \<le> B + \<bar>?c\<bar>"
    and b3: "\<bar>?a\<bar> \<le> B + \<bar>?c\<bar>" and b4: "\<bar>?b\<bar> \<le> B + \<bar>?c\<bar>"
    using ba bb by linarith+
  have s': "(?a - ?c) + (?b + ?c) = M"
    using sum by simp
  show ?thesis
    using wa wb sum m whole_diff [OF wa assms(2)] whole_add [OF wb assms(2)] b1 b2 b3 b4 s'
    unfolding ledgerWithin_def implement_fields sub add
    by (cases "?c \<le> ?a") (simp_all only: if_True if_False simp_thms)
qed

lemma ledgerWithin_remove:
  assumes "ledgerWithin B M g"
    and "of_int \<lfloor>target_value ev\<rfloor> = target_value ev"
    and "B + \<bar>target_value ev\<bar> < 2 ^ 53"
  shows "ledgerWithin (B + \<bar>target_value ev\<bar>) M (fst (handleClickRemoveControl R ev g))"
proof -
  let ?a = "spendAvailable g" and ?b = "spendAllocated g" and ?c = "target_value ev"
  from assms(1) have wa: "of_int \<lfloor>?a\<rfloor> = ?a" and wb: "of_int \<lfloor>?b\<rfloor> = ?b"
    and ba: "\<bar>?a\<bar> \<le> B" and bb: "\<bar>?b\<bar> \<le> B" and sum: "?a + ?b = M"
    and m: "moneyPerTurn g = M"
    by (simp_all add: ledgerWithin_def)
  have "wholeNumber (?a + ?c)"
    using whole_add [OF wa assms(2)] ba assms(3) by (simp add: wholeNumber_def)
  then have add: "js_add ?a ?c = ?a + ?c"
    by (simp add: js_add_def binary64_whole)
  have "wholeNumber (?b - ?c)"
    using whole_diff [OF wb assms(2)] bb assms(3) by (simp add: wholeNumber_def)
  then have sub: "js_sub ?b ?c = ?b - ?c"
    by (simp add: js_sub_def binary64_whole)
  have b1: "\<bar>?a + ?c\<bar> \<le> B + \<bar>?c\<bar>" and b2: "\<bar>?b - ?c\<bar> \<le> B + \<bar>?c\<bar>"
    using ba bb by linarith+
  have s': "(?a + ?c) + (?b - ?c) = M"
    using sum by simp
  show ?thesis
    using m whole_add [OF wa assms(2)] whole_diff [OF wb assms(2)] b1 b2 s'
    unfolding ledgerWithin_def remove_fields sub add
    by (simp only: simp_thms)
qed

lemma ledgerWithin_clicks:
  assumes "ledgerWithin B M g"
    and "\<forall>c \<in> set cs. of_int \<lfloor>click_value c\<rfloor> = click_value c"
    and "B + (\<Sum>c\<leftarrow>cs. \<bar>click_value c\<bar>) < 2 ^ 53"
  shows "ledgerWithin (B + (\<Sum>c\<leftarrow>cs. \<bar>click_value c\<bar>)) M (clicks cs g)"
  using assms
proof (induction cs arbitrary: B g)
  case Nil
  then show ?case by simp
next
  case (Cons c cs)
  have nonneg: "0 \<le> (\<Sum>c\<leftarrow>cs. \<bar>click_value c\<bar>)"
    by (rule sum_list_nonneg) auto
  from Cons.prems(2) have w: "of_int \<lfloor>click_value c\<rfloor> = click_value c"
    and ws: "\<forall>c \<in> set cs. of_int \<lfloor>click_value c\<rfloor> = click_value c"
    by simp_all
  from Cons.prems(3) nonneg have b: "B + \<bar>click_value c\<bar> < 2 ^ 53"
    and bs: "(B + \<bar>click_value c\<bar>) + (\<Sum>c\<leftarrow>cs. \<bar>click_value c\<bar>) < 2 ^ 53"
    by simp_all
  show ?case
  proof (cases c)
    case (Implement R ev)
    with w b have "ledgerWithin (B + \<bar>click_value c\<bar>) M
                     (fst (handleClickImplementControl R ev g))"
      using ledgerWithin_implement [OF Cons.prems(1), of ev R] by simp
    from Cons.IH [OF this ws bs] Implement show ?thesis
      by (simp add: add.assoc)
  next
    case (Remove R ev)
    with w b have "ledgerWithin (B + \<bar>click_value c\<bar>) M
                     (fst (handleClickRemoveControl R ev g))"
      using ledgerWithin_remove [OF Cons.prems(1), of ev R] by simp
    from Cons.IH [OF this ws bs] Remove show ?thesis
      by (simp add: add.assoc)
  qed
qed

lemma sum_list_take_le:
  "(\<Sum>c\<leftarrow>take n cs. \<bar>click_value c\<bar>) \<le> (\<Sum>c\<leftarrow>cs. \<bar>click_value c\<bar>)"
proof -
  have "(\<Sum>c\<leftarrow>cs. \<bar>click_value c\<bar>)
          = (\<Sum>c\<leftarrow>take n cs. \<bar>click_value c\<bar>) + (\<Sum>c\<leftarrow>drop n cs. \<bar>click_value c\<bar>)"
    by (metis append_take_drop_id map_append sum_list_append)
  moreover have "0 \<le> (\<Sum>c\<leftarrow>drop n cs. \<bar>click_value c\<bar>)"
    by (rule sum_list_nonneg) auto
  ultimately show ?thesis by simp
qed

section \<open>The allocation ledger\<close>

text \<open>
  Claim C1, as the code has it.  Entering the purchasing state sets the available amount to
  the allowance of the turn and the allocated amount to zero.  Let the allowance and the
  amounts on the buttons of a sequence of clicks be whole numbers, and let the magnitude of
  the allowance plus the magnitudes of all these amounts stay below \<open>2^53\<close>, so that
  every figure that can arise is a whole number that a JavaScript number holds exactly.
  Then after any number of these clicks on implement and remove buttons (every prefix
  \<open>take n cs\<close>), whatever the rendering service does, the available and the allocated
  amount add up to the allowance, as rational numbers and when added by JavaScript.
\<close>

theorem ledger_invariant_whole_numbers:
  assumes "of_int \<lfloor>moneyPerTurn g\<rfloor> = moneyPerTurn g"
    and "\<forall>c \<in> set cs. of_int \<lfloor>click_value c\<rfloor> = click_value c"
    and "\<bar>moneyPerTurn g\<bar> + (\<Sum>c\<leftarrow>cs. \<bar>click_value c\<bar>) < 2 ^ 53"
  shows "spendAvailable (clicks (take n cs) (fst (renderGameState R Purchasing g)))
           + spendAllocated (clicks (take n cs) (fst (renderGameState R Purchasing g)))
         = moneyPerTurn g
         \<and> js_add (spendAvailable (clicks (take n cs) (fst (renderGameState R Purchasing g))))
                  (spendAllocated (clicks (take n cs) (fst (renderGameState R Purchasing g))))
           = moneyPerTurn g
         \<and> moneyPerTurn (clicks (take n cs) (fst (renderGameState R Purchasing g)))
           = moneyPerTurn g"
proof -
  let ?M = "moneyPerTurn g"
  let ?g0 = "fst (renderGameState R Purchasing g)"
  let ?S = "\<Sum>c\<leftarrow>take n cs. \<bar>click_value c\<bar>"
  have start: "ledgerWithin \<bar>?M\<bar> ?M ?g0"
    using purchasing_entry [of R g] assms(1) by (simp add: ledgerWithin_def)
  have ws: "\<forall>c \<in> set (take n cs). of_int \<lfloor>click_value c\<rfloor> = click_value c"
    using assms(2) by (meson in_set_takeD)
  have bound: "\<bar>?M\<bar> + ?S < 2 ^ 53"
    using assms(3) sum_list_take_le [of n cs] by linarith
  from ledgerWithin_clicks [OF start ws bound]
  have l: "ledgerWithin (\<bar>?M\<bar> + ?S) ?M (clicks (take n cs) ?g0)" .
  then have sum: "spendAvailable (clicks (take n cs) ?g0)
                    + spendAllocated (clicks (take n cs) ?g0) = ?M"
    and m: "moneyPerTurn (clicks (take n cs) ?g0) = ?M"
    by (simp_all add: ledgerWithin_def)
  have "0 \<le> ?S" by (rule sum_list_nonneg) auto
  with bound assms(1) have "wholeNumber ?M"
    by (simp add: wholeNumber_def)
  then have "js_add (spendAvailable (clicks (take n cs) ?g0))
                    (spendAllocated (clicks (take n cs) ?g0)) = ?M"
    by (simp add: js_add_def sum binary64_whole)
  with sum m show ?thesis by simp
qed

text \<open>
  With an allowance of 1000, a click that stages a control for 400 and a click for a
  control that costs 700: the figures are 600 and 400 and add up to 1000.
\<close>

theorem ledger_invariant_whole_numbers_witness:
  "spendAvailable (clicks (take 2 [Implement quiet (buttonClick ''a'' 400),
                                   Implement quiet (buttonClick ''b'' 700)])
                     (fst (renderGameState quiet Purchasing sampleGame)))
     + spendAllocated (clicks (take 2 [Implement quiet (buttonClick ''a'' 400),
                                       Implement quiet (buttonClick ''b'' 700)])
                         (fst (renderGameState quiet Purchasing sampleGame)))
   = 1000"
proof -
  let ?cs = "[Implement quiet (buttonClick ''a'' 400), Implement quiet (buttonClick ''b'' 700)]"
  have a: "of_int \<lfloor>moneyPerTurn sampleGame\<rfloor> = moneyPerTurn sampleGame"
    and m: "moneyPerTurn sampleGame = 1000"
    by (simp_all add: sampleGame_def)
  have b: "\<forall>c \<in> set ?cs. of_int \<lfloor>click_value c\<rfloor> = click_value c"
    by (simp add: buttonClick_def)
  have c: "\<bar>moneyPerTurn sampleGame\<bar> + (\<Sum>c\<leftarrow>?cs. \<bar>click_value c\<bar>) < 2 ^ 53"
    by (simp add: buttonClick_def sampleGame_def)
  from ledger_invariant_whole_numbers [OF a b c, of 2 quiet] m show ?thesis
    by simp
qed

text \<open>
  Claim C1 as stated, for every sequence, does not hold.  With the allowance of 1000,
  staging a control that costs 0.1 and then one that costs 0.2 leaves
  999.6999999999999 available and 0.30000000000000004 allocated; these do not add up to
  1000, and JavaScript adds them to 999.9999999999999.
\<close>

theorem ledger_invariant_counterexample:
  "spendAvailable (clicks [Implement quiet (buttonClick ''c'' (binary64 (1 / 10))),
                           Implement quiet (buttonClick ''d'' (binary64 (2 / 10)))]
                     (fst (renderGameState quiet Purchasing sampleGame)))
     = 8793454194301337 / 2 ^ 43
   \<and> spendAllocated (clicks [Implement quiet (buttonClick ''c'' (binary64 (1 / 10))),
                             Implement quiet (buttonClick ''d'' (binary64 (2 / 10)))]
                       (fst (renderGameState quiet Purchasing sampleGame)))
     = 5404319552844596 / 2 ^ 54
   \<and> moneyPerTurn (clicks [Implement quiet (buttonClick ''c'' (binary64 (1 / 10))),
                           Implement quiet (buttonClick ''d'' (binary64 (2 / 10)))]
                     (fst (renderGameState quiet Purchasing sampleGame)))
     = 1000
   \<and> (8793454194301337 / 2 ^ 43 + 5404319552844596 / 2 ^ 54 :: rat) \<noteq> 1000
   \<and> js_add (8793454194301337 / 2 ^ 43) (5404319552844596 / 2 ^ 54)
     = 8796093022207999 / 2 ^ 43
   \<and> (8796093022207999 / 2 ^ 43 :: rat) \<noteq> 1000"
  by code_simp

text \<open>
  Claim C6, as the code has it.  Let the available and the allocated amount be whole
  numbers below \<open>2^53\<close> in magnitude, and so the available amount less the cost and the
  allocated amount plus the cost.  When the cost is within the available amount and the
  control is not staged, the click on its implement button followed by the click on its
  remove button (same element id and value, in whatever modal, whatever the rendering
  service does) gives back the available and the allocated amount of before, and the
  staged controls of before as well.
\<close>

theorem stage_unstage_restores_whole_numbers:
  assumes "wholeNumber (spendAvailable g)"
    and "wholeNumber (spendAllocated g)"
    and "wholeNumber (spendAvailable g - target_value ev)"
    and "wholeNumber (spendAllocated g + target_value ev)"
    and "target_value ev \<le> spendAvailable g"
    and "controlIdOf ev \<notin> set (controlsToImplement g)"
    and "target_id ev' = target_id ev"
    and "target_value ev' = target_value ev"
  shows "spendAvailable (fst (handleClickRemoveControl R' ev'
            (fst (handleClickImplementControl R ev g)))) = spendAvailable g
         \<and> spendAllocated (fst (handleClickRemoveControl R' ev'
            (fst (handleClickImplementControl R ev g)))) = spendAllocated g
         \<and> controlsToImplement (fst (handleClickRemoveControl R' ev'
            (fst (handleClickImplementControl R ev g)))) = controlsToImplement g"
proof -
  let ?a = "spendAvailable g" and ?b = "spendAllocated g" and ?c = "target_value ev"
  have same: "controlIdOf ev' = controlIdOf ev"
    using assms(7) by (simp add: controlIdOf_def)
  have keep: "filter (\<lambda>i. i \<noteq> controlIdOf ev) (controlsToImplement g) = controlsToImplement g"
    using assms(6) by (simp add: filter_id_conv) blast
  have s1: "js_sub ?a ?c = ?a - ?c" and a1: "js_add ?b ?c = ?b + ?c"
    using assms(3,4) by (simp_all add: js_sub_def js_add_def binary64_whole)
  have a2: "js_add (?a - ?c) ?c = ?a" and s2: "js_sub (?b + ?c) ?c = ?b"
    using assms(1,2) by (simp_all add: js_sub_def js_add_def binary64_whole)
  show ?thesis
    using assms(5,8) by (simp add: remove_fields implement_fields same keep s1 a1 a2 s2)
qed

theorem stage_unstage_restores_whole_numbers_witness:
  "spendAvailable (fst (handleClickRemoveControl quiet (buttonClick ''a'' 400)
      (fst (handleClickImplementControl quiet (buttonClick ''a'' 400) sampleGame)))) = 1000
   \<and> spendAllocated (fst (handleClickRemoveControl quiet (buttonClick ''a'' 400)
      (fst (handleClickImplementControl quiet (buttonClick ''a'' 400) sampleGame)))) = 0
   \<and> controlsToImplement (fst (handleClickRemoveControl quiet (buttonClick ''a'' 400)
      (fst (handleClickImplementControl quiet (buttonClick ''a'' 400) sampleGame)))) = []"
proof -
  have "wholeNumber (spendAvailable sampleGame)"
    and "wholeNumber (spendAllocated sampleGame)"
    and "wholeNumber (spendAvailable sampleGame - target_value (buttonClick ''a'' 400))"
    and "wholeNumber (spendAllocated sampleGame + target_value (buttonClick ''a'' 400))"
    and "target_value (buttonClick ''a'' 400) \<le> spendAvailable sampleGame"
    and "controlIdOf (buttonClick ''a'' 400) \<notin> set (controlsToImplement sampleGame)"
    by (simp_all add: wholeNumber_def buttonClick_def sampleGame_def)
  from stage_unstage_restores_whole_numbers [OF this refl refl, of quiet quiet]
  show ?thesis
    by (simp add: sampleGame_def)
qed

text \<open>
  Claim C6 as stated, for every ledger state, does not hold.  After a control that costs
  0.1 has been staged from the allowance of 1000, the control that costs 0.2 is within the
  funds and not staged; staging and at once de-staging it leaves 0.10000000000000003
  allocated where 0.1 was allocated before.
\<close>

theorem stage_unstage_counterexample:
  "target_value (buttonClick ''d'' (binary64 (2 / 10)))
     \<le> spendAvailable (fst (handleClickImplementControl quiet
          (buttonClick ''c'' (binary64 (1 / 10))) sampleGame))
   \<and> controlIdOf (buttonClick ''d'' (binary64 (2 / 10)))
     \<notin> set (controlsToImplement (fst (handleClickImplementControl quiet
          (buttonClick ''c'' (binary64 (1 / 10))) sampleGame)))
   \<and> spendAllocated (fst (handleClickImplementControl quiet
          (buttonClick ''c'' (binary64 (1 / 10))) sampleGame))
     = 3602879701896397 / 2 ^ 55
   \<and> spendAllocated
       (fst (handleClickRemoveControl quiet (buttonClick ''d'' (binary64 (2 / 10)))
         (fst (handleClickImplementControl quiet (buttonClick ''d'' (binary64 (2 / 10)))
           (fst (handleClickImplementControl quiet
             (buttonClick ''c'' (binary64 (1 / 10))) sampleGame))))))
     = 1801439850948199 / 2 ^ 54
   \<and> (1801439850948199 / 2 ^ 54 :: rat) \<noteq> 3602879701896397 / 2 ^ 55"
  by code_simp

text \<open>
  Claim C4, as the code has it.  A click on an implement button whose cost is more than
  the available amount is ignored: the available amount, the allocated amount and the
  staged controls stay as they were, and no error tells the caller about the missing
  funds.  All the handler does is to draw the spend figures and the enclosing modal again,
  so it ends as that drawing ends; when the rendering service does not throw and the
  button sits in the new-controls modal, in the implemented-controls modal or in no modal,
  the handler returns normally.
\<close>

theorem stage_insufficient_ignored:
  assumes "spendAvailable g < target_value ev"
  shows "spendAvailable (fst (handleClickImplementControl R ev g)) = spendAvailable g
         \<and> spendAllocated (fst (handleClickImplementControl R ev g)) = spendAllocated g
         \<and> controlsToImplement (fst (handleClickImplementControl R ev g)) = controlsToImplement g
         \<and> handleClickImplementControl R ev g
             = andThen (draw R (RenderSpendFigures (spendAvailable g) (spendAllocated g) True) g)
                 (rerenderModal R ev)
         \<and> (modalId ev \<in> {None, Some ''new-controls'', Some ''implemented-controls''}
            \<longrightarrow> snd (handleClickImplementControl quiet ev g) = None)"
proof -
  have guard: "\<not> 0 \<le> js_sub (spendAvailable g) (target_value ev)"
    using assms by (simp add: js_sub_def binary64_nonneg_iff)
  have h: "handleClickImplementControl R ev g
             = andThen (draw R (RenderSpendFigures (spendAvailable g) (spendAllocated g) True) g)
                 (rerenderModal R ev)" for R
    using guard by (simp add: handleClickImplementControl_def)
  have q: "modalId ev \<in> {None, Some ''new-controls'', Some ''implemented-controls''}
        \<longrightarrow> snd (handleClickImplementControl quiet ev g) = None"
    by (cases "gameType g")
       (auto simp: h quiet_def draw_def andThen_def rerenderModal_def Let_def
          handleClickViewAvailableControls_def handleClickViewImplementedControls_def emit_def)
  have f: "spendAvailable (fst (handleClickImplementControl R ev g)) = spendAvailable g"
    "spendAllocated (fst (handleClickImplementControl R ev g)) = spendAllocated g"
    "controlsToImplement (fst (handleClickImplementControl R ev g)) = controlsToImplement g"
    using assms by (simp_all add: implement_fields)
  from f h [of R] q show ?thesis
    by blast
qed

text \<open>
  With an allowance of 1000, staging a control that costs 400 leaves 600 available and
  400 allocated; the click for a control that costs 700 then changes neither figure nor
  the staged controls, and returns without an exception.
\<close>

theorem stage_insufficient_ignored_witness:
  "spendAvailable (fst (handleClickImplementControl quiet (buttonClick ''b'' 700)
        (fst (handleClickImplementControl quiet (buttonClick ''a'' 400) sampleGame)))) = 600
   \<and> spendAllocated (fst (handleClickImplementControl quiet (buttonClick ''b'' 700)
        (fst (handleClickImplementControl quiet (buttonClick ''a'' 400) sampleGame)))) = 400
   \<and> controlsToImplement (fst (handleClickImplementControl quiet (buttonClick ''b'' 700)
        (fst (handleClickImplementControl quiet (buttonClick ''a'' 400) sampleGame))))
       = [Some ''a'']
   \<and> snd (handleClickImplementControl quiet (buttonClick ''b'' 700)
        (fst (handleClickImplementControl quiet (buttonClick ''a'' 400) sampleGame))) = None"
proof -
  let ?g = "fst (handleClickImplementControl quiet (buttonClick ''a'' 400) sampleGame)"
  have w: "wholeNumber (1000 - 400)" "wholeNumber (0 + 400)"
    by (simp_all add: wholeNumber_def)
  then have n: "js_sub 1000 400 = 600" "js_add 0 400 = 400"
    using binary64_whole [of "1000 - 400"] binary64_whole [of "0 + 400"]
    by (simp_all add: js_sub_def js_add_def)
  have a: "spendAvailable ?g = 600" and b: "spendAllocated ?g = 400"
    and c: "controlsToImplement ?g = [Some ''a'']"
    by (simp_all add: implement_fields sampleGame_def buttonClick_def controlIdOf_def
          nth_opt_def n)
  have lt: "spendAvailable ?g < target_value (buttonClick ''b'' 700)"
    using a by (simp add: buttonClick_def)
  have m: "modalId (buttonClick ''b'' 700)
             \<in> {None, Some ''new-controls'', Some ''implemented-controls''}"
    by (simp add: buttonClick_def)
  from stage_insufficient_ignored [OF lt, of quiet] m show ?thesis
    unfolding a b c by blast
qed

text \<open>
  Claim C4 as stated, that such a click fails with an error, does not hold: in the
  scenario above the second click costs more than what is available and the handler
  returns without any exception.
\<close>

theorem stage_insufficient_counterexample:
  "spendAvailable (fst (handleClickImplementControl quiet (buttonClick ''a'' 400) sampleGame))
     < target_value (buttonClick ''b'' 700)
   \<and> snd (handleClickImplementControl quiet (buttonClick ''b'' 700)
        (fst (handleClickImplementControl quiet (buttonClick ''a'' 400) sampleGame))) = None"
  by code_simp

text \<open>
  Claim C5, as the code has it.  The handler does not look whether the control is staged
  already: whenever the funds suffice the identifier is appended to the staged controls,
  also when it is among them, and the handler goes on to draw the spend figures and the
  modal as for any other control, returning normally when the rendering service does not
  throw and the button sits in the new-controls modal, in the implemented-controls modal
  or in no modal.  The staged controls stay free of duplicates exactly when they were so
  before and the identifier was not among them.
\<close>

theorem stage_appends_unchecked:
  assumes "target_value ev \<le> spendAvailable g"
  shows "controlsToImplement (fst (handleClickImplementControl R ev g))
           = controlsToImplement g @ [controlIdOf ev]
         \<and> (distinct (controlsToImplement (fst (handleClickImplementControl R ev g)))
              \<longleftrightarrow> distinct (controlsToImplement g)
                  \<and> controlIdOf ev \<notin> set (controlsToImplement g))
         \<and> (modalId ev \<in> {None, Some ''new-controls'', Some ''implemented-controls''}
            \<longrightarrow> snd (handleClickImplementControl quiet ev g) = None)"
proof -
  have "modalId ev \<in> {None, Some ''new-controls'', Some ''implemented-controls''}
        \<longrightarrow> snd (handleClickImplementControl quiet ev g) = None"
    by (cases "gameType g")
       (auto simp: handleClickImplementControl_def quiet_def draw_def andThen_def
          rerenderModal_def Let_def handleClickViewAvailableControls_def
          handleClickViewImplementedControls_def emit_def)
  then show ?thesis
    using assms by (auto simp: implement_fields)
qed

theorem stage_appends_unchecked_witness:
  "controlsToImplement (fst (handleClickImplementControl quiet (buttonClick ''a'' 400) sampleGame))
     = [Some ''a'']
   \<and> distinct (controlsToImplement
        (fst (handleClickImplementControl quiet (buttonClick ''a'' 400) sampleGame)))
   \<and> snd (handleClickImplementControl quiet (buttonClick ''a'' 400) sampleGame) = None"
proof -
  have le: "target_value (buttonClick ''a'' 400) \<le> spendAvailable sampleGame"
    by (simp add: buttonClick_def sampleGame_def)
  have m: "modalId (buttonClick ''a'' 400)
             \<in> {None, Some ''new-controls'', Some ''implemented-controls''}"
    by (simp add: buttonClick_def)
  from stage_appends_unchecked [OF le, of quiet] m show ?thesis
    by (simp add: sampleGame_def buttonClick_def controlIdOf_def nth_opt_def)
qed

text \<open>
  Claim C5 as stated does not hold: two clicks for the same control, each within the
  funds, both return without an exception and leave the identifier twice among the staged
  controls.
\<close>

theorem stage_twice_counterexample:
  "snd (handleClickImplementControl quiet (buttonClick ''a'' 400)
        (fst (handleClickImplementControl quiet (buttonClick ''a'' 400) sampleGame))) = None
   \<and> controlsToImplement (fst (handleClickImplementControl quiet (buttonClick ''a'' 400)
        (fst (handleClickImplementControl quiet (buttonClick ''a'' 400) sampleGame))))
       = [Some ''a'', Some ''a'']"
  by code_simp

section \<open>Phases\<close>








text \<open>
  Claim C9, as the code has it.  In the placing state, with a control being placed, a click
  on an asset other than the one of the control only tells the player to try again: the
  state, the staged controls and both amounts are as they were, and the control being
  placed is not cleared but stays selected for the next attempt.
\<close>

theorem wrong_asset_no_change:
  assumes "state g = Placing"
    and "placingControl g = Some pc"
    and "control_asset pc \<noteq> assetId ev"
  shows "state (fst (handleClickAssetIcon R ev g)) = Placing
         \<and> controlsToImplement (fst (handleClickAssetIcon R ev g)) = controlsToImplement g
         \<and> spendAvailable (fst (handleClickAssetIcon R ev g)) = spendAvailable g
         \<and> spendAllocated (fst (handleClickAssetIcon R ev g)) = spendAllocated g
         \<and> placingControl (fst (handleClickAssetIcon R ev g)) = Some pc
         \<and> trace (fst (handleClickAssetIcon R ev g))
             = trace g @ [Alert ''Incorrect! Please try again.'']
         \<and> fst (handleClickAssetIcon R ev g)
             = g\<lparr>trace := trace g @ [Alert ''Incorrect! Please try again.'']\<rparr>
         \<and> snd (handleClickAssetIcon R ev g) = None"
  using assms by (simp add: handleClickAssetIcon_def emit_def)

theorem wrong_asset_no_change_witness:
  "state (fst (handleClickAssetIcon quiet (assetClick ''laptop'') placingGame)) = Placing
   \<and> controlsToImplement (fst (handleClickAssetIcon quiet (assetClick ''laptop'') placingGame))
       = [Some ''a'']
   \<and> trace (fst (handleClickAssetIcon quiet (assetClick ''laptop'') placingGame))
       = [Alert ''Incorrect! Please try again.'']"
proof -
  let ?pc = "\<lparr>control_id = ''a'', control_asset = Some ''server'', control_cost = 400\<rparr>"
  have "state placingGame = Placing" and "placingControl placingGame = Some ?pc"
    and "control_asset ?pc \<noteq> assetId (assetClick ''laptop'')"
    by (simp_all add: placingGame_def assetClick_def)
  from wrong_asset_no_change [OF this, of quiet] show ?thesis
    by (simp add: placingGame_def sampleGame_def)
qed

text \<open>
  Claim C9 as stated, that the wrong binding clears the control being placed, does not
  hold: the control \<open>a\<close> belongs on the server, the player clicks the laptop, and the
  control is still the one being placed.
\<close>

theorem wrong_asset_counterexample:
  "state placingGame = Placing
   \<and> placingControl placingGame
       = Some \<lparr>control_id = ''a'', control_asset = Some ''server'', control_cost = 400\<rparr>
   \<and> assetId (assetClick ''laptop'') = Some ''laptop''
   \<and> placingControl (fst (handleClickAssetIcon quiet (assetClick ''laptop'') placingGame))
       = Some \<lparr>control_id = ''a'', control_asset = Some ''server'', control_cost = 400\<rparr>
   \<and> placingControl (fst (handleClickAssetIcon quiet (assetClick ''laptop'') placingGame))
       \<noteq> None"
  by (simp add: handleClickAssetIcon_def emit_def placingGame_def assetClick_def)

section \<open>Votes\<close>

lemma getVoteThreshold_div: "getVoteThreshold g = (length (members g) + 1) div 2"
proof -
  have "\<lceil>real (length (members g)) / 2\<rceil> = - (- int (length (members g)) div 2)"
    using ceiling_divide_eq_div [of "int (length (members g))" 2, where ?'a = real] by simp
  then show ?thesis unfolding getVoteThreshold_def by linarith
qed

lemma findIndex_Some:
  "findIndex P xs = Some i \<Longrightarrow> i < length xs \<and> P (xs ! i)"
proof (induction xs arbitrary: i)
  case Nil
  then show ?case by simp
next
  case (Cons x xs)
  then show ?case by (auto split: if_splits)
qed

lemma findIndex_member:
  "x \<in> set xs \<Longrightarrow> P x \<Longrightarrow> \<exists>i. findIndex P xs = Some i"
  by (induction xs) auto

lemma splice1_update: "splice1 i (xs[i := y]) = splice1 i xs"
  by (simp add: splice1_def)

text \<open>
  Claim C3.  Let a record for the action exist.  If its tally has reached the threshold,
  toggling changes nothing at all, so a member who voted stays recorded and no update is
  sent.  If the tally is below the threshold and the member has voted, toggling takes the
  member out: either other voters remain and the record, still at its index, no longer
  holds the member and has a smaller tally, or nobody remains and the record is removed
  from the list.
\<close>

theorem passed_vote_locked:
  assumes "findIndex (\<lambda>vote. vote_id vote = voteId) (votes g) = Some i"
    and "userId g \<in> set (vote_votes (votes g ! i))"
  shows "(getVoteThreshold g \<le> length (vote_votes (votes g ! i)) \<longrightarrow>
            toggleVote voteId g = (i, g)
            \<and> userId g \<in> set (vote_votes (votes (snd (toggleVote voteId g)) ! i)))
         \<and> (length (vote_votes (votes g ! i)) < getVoteThreshold g \<longrightarrow>
              fst (toggleVote voteId g) = i
              \<and> (if filter (\<lambda>v. v \<noteq> userId g) (vote_votes (votes g ! i)) = []
                  then votes (snd (toggleVote voteId g)) = splice1 i (votes g)
                       \<and> Suc (length (votes (snd (toggleVote voteId g)))) = length (votes g)
                  else length (votes (snd (toggleVote voteId g))) = length (votes g)
                       \<and> vote_id (votes (snd (toggleVote voteId g)) ! i) = voteId
                       \<and> userId g \<notin> set (vote_votes (votes (snd (toggleVote voteId g)) ! i))
                       \<and> length (vote_votes (votes (snd (toggleVote voteId g)) ! i))
                           < length (vote_votes (votes g ! i))))"
proof -
  from findIndex_Some [OF assms(1)]
  have i: "i < length (votes g)" and id: "vote_id (votes g ! i) = voteId"
    by simp_all
  from findIndex_member [OF assms(2), of "\<lambda>v. v = userId g"]
  obtain j where j: "findIndex (\<lambda>v. v = userId g) (vote_votes (votes g ! i)) = Some j"
    by auto
  have less: "length (filter (\<lambda>v. v \<noteq> userId g) (vote_votes (votes g ! i)))
                < length (vote_votes (votes g ! i))"
    using assms(2) by (simp add: length_filter_less)
  have locked: "getVoteThreshold g \<le> length (vote_votes (votes g ! i)) \<Longrightarrow>
                toggleVote voteId g = (i, g)"
    using assms(1) by (simp add: toggleVote_def)
  have revoked: "length (vote_votes (votes g ! i)) < getVoteThreshold g \<Longrightarrow>
      toggleVote voteId g =
        (i, updateVotes (g\<lparr>votes :=
              (if filter (\<lambda>v. v \<noteq> userId g) (vote_votes (votes g ! i)) = []
               then splice1 i (votes g)
               else (votes g)[i := (votes g ! i)\<lparr>vote_votes :=
                       filter (\<lambda>v. v \<noteq> userId g) (vote_votes (votes g ! i))\<rparr>])\<rparr>))"
    using assms(1) j by (simp add: toggleVote_def Let_def splice1_update)
  have len: "Suc (length (splice1 i (votes g))) = length (votes g)"
    using i by (simp add: splice1_def)
  show ?thesis
  proof (intro conjI impI)
    assume "getVoteThreshold g \<le> length (vote_votes (votes g ! i))"
    then show "toggleVote voteId g = (i, g)" by (rule locked)
    then show "userId g \<in> set (vote_votes (votes (snd (toggleVote voteId g)) ! i))"
      using assms(2) by simp
  next
    assume b: "length (vote_votes (votes g ! i)) < getVoteThreshold g"
    show "fst (toggleVote voteId g) = i"
      using revoked [OF b] by simp
    show "if filter (\<lambda>v. v \<noteq> userId g) (vote_votes (votes g ! i)) = []
          then votes (snd (toggleVote voteId g)) = splice1 i (votes g)
               \<and> Suc (length (votes (snd (toggleVote voteId g)))) = length (votes g)
          else length (votes (snd (toggleVote voteId g))) = length (votes g)
               \<and> vote_id (votes (snd (toggleVote voteId g)) ! i) = voteId
               \<and> userId g \<notin> set (vote_votes (votes (snd (toggleVote voteId g)) ! i))
               \<and> length (vote_votes (votes (snd (toggleVote voteId g)) ! i))
                   < length (vote_votes (votes g ! i))"
      using i id less len
      by (simp add: revoked [OF b] updateVotes_def emit_def)
  qed
qed

text \<open>
  With five members the threshold is three.  A record with three votes, one of them the
  member's own, is not changed by toggling; a record with two votes loses the member's
  vote.
\<close>

theorem passed_vote_locked_witness:
  "toggleVote ''simulate-turn''
      (votingGame [''u1'', ''u2'', ''u3'', ''u4'', ''u5'']
         [\<lparr>vote_id = ''simulate-turn'', vote_votes = [''u2'', ''u3'', ''u1'']\<rparr>])
     = (0, votingGame [''u1'', ''u2'', ''u3'', ''u4'', ''u5'']
             [\<lparr>vote_id = ''simulate-turn'', vote_votes = [''u2'', ''u3'', ''u1'']\<rparr>])
   \<and> ''u1'' \<notin> set (vote_votes (votes (snd (toggleVote ''simulate-turn''
        (votingGame [''u1'', ''u2'', ''u3'', ''u4'', ''u5'']
           [\<lparr>vote_id = ''simulate-turn'', vote_votes = [''u2'', ''u1'']\<rparr>]))) ! 0))"
proof -
  let ?ms = "[''u1'', ''u2'', ''u3'', ''u4'', ''u5'']"
  let ?g3 = "votingGame ?ms [\<lparr>vote_id = ''simulate-turn'', vote_votes = [''u2'', ''u3'', ''u1'']\<rparr>]"
  let ?g2 = "votingGame ?ms [\<lparr>vote_id = ''simulate-turn'', vote_votes = [''u2'', ''u1'']\<rparr>]"
  have f3: "findIndex (\<lambda>vote. vote_id vote = ''simulate-turn'') (votes ?g3) = Some 0"
    and u3: "userId ?g3 \<in> set (vote_votes (votes ?g3 ! 0))"
    and t3: "getVoteThreshold ?g3 \<le> length (vote_votes (votes ?g3 ! 0))"
    by (simp_all add: votingGame_def sampleGame_def getVoteThreshold_div)
  have f2: "findIndex (\<lambda>vote. vote_id vote = ''simulate-turn'') (votes ?g2) = Some 0"
    and u2: "userId ?g2 \<in> set (vote_votes (votes ?g2 ! 0))"
    and t2: "length (vote_votes (votes ?g2 ! 0)) < getVoteThreshold ?g2"
    and r2: "filter (\<lambda>v. v \<noteq> userId ?g2) (vote_votes (votes ?g2 ! 0)) \<noteq> []"
    and n2: "userId ?g2 = ''u1''"
    by (simp_all add: votingGame_def sampleGame_def getVoteThreshold_div)
  from passed_vote_locked [OF f3 u3] t3
  have a: "toggleVote ''simulate-turn'' ?g3 = (0, ?g3)"
    by blast
  from passed_vote_locked [OF f2 u2] t2 r2
  have "userId ?g2 \<notin> set (vote_votes (votes (snd (toggleVote ''simulate-turn'' ?g2)) ! 0))"
    by presburger
  with a n2 show ?thesis
    by simp
qed

text \<open>
  Claim C7.  For an organisation with at least one member the threshold is the number of
  members divided by two and rounded up, that is the least number whose double is not
  below the number of members; it is three for five members; and the test of the voting
  handlers on an existing record succeeds exactly when the tally of that record is at
  least this number.
\<close>

theorem majority_threshold:
  assumes "1 \<le> length (members g)"
  shows "int (getVoteThreshold g) = \<lceil>real (length (members g)) / 2\<rceil>
         \<and> length (members g) \<le> 2 * getVoteThreshold g
         \<and> 2 * getVoteThreshold g < length (members g) + 2
         \<and> (length (members g) = 5 \<longrightarrow> getVoteThreshold g = 3)
         \<and> (\<forall>i < length (votes g).
              thresholdReached i g
                = Inr (nat \<lceil>real (length (members g)) / 2\<rceil>
                         \<le> length (vote_votes (votes g ! i))))"
proof -
  have c: "0 \<le> \<lceil>real (length (members g)) / 2\<rceil>"
    by simp
  have "int (getVoteThreshold g) = \<lceil>real (length (members g)) / 2\<rceil>"
    unfolding getVoteThreshold_def using c by simp
  moreover have "length (members g) \<le> 2 * getVoteThreshold g"
    and "2 * getVoteThreshold g < length (members g) + 2"
    and "length (members g) = 5 \<longrightarrow> getVoteThreshold g = 3"
    by (simp_all add: getVoteThreshold_div)
  moreover have "\<forall>i < length (votes g).
      thresholdReached i g
        = Inr (nat \<lceil>real (length (members g)) / 2\<rceil> \<le> length (vote_votes (votes g ! i)))"
    by (simp add: thresholdReached_def getVoteTally_def nth_opt_def getVoteThreshold_def)
  ultimately show ?thesis
    by blast
qed

theorem majority_threshold_witness:
  "getVoteThreshold (votingGame [''u1'', ''u2'', ''u3'', ''u4'', ''u5'']
      [\<lparr>vote_id = ''simulate-turn'', vote_votes = [''u2'', ''u3'', ''u1'']\<rparr>]) = 3
   \<and> thresholdReached 0 (votingGame [''u1'', ''u2'', ''u3'', ''u4'', ''u5'']
      [\<lparr>vote_id = ''simulate-turn'', vote_votes = [''u2'', ''u3'', ''u1'']\<rparr>]) = Inr True"
proof -
  let ?g = "votingGame [''u1'', ''u2'', ''u3'', ''u4'', ''u5'']
      [\<lparr>vote_id = ''simulate-turn'', vote_votes = [''u2'', ''u3'', ''u1'']\<rparr>]"
  have m: "1 \<le> length (members ?g)" and five: "length (members ?g) = 5"
    and v: "0 < length (votes ?g)" and t: "length (vote_votes (votes ?g ! 0)) = 3"
    by (simp_all add: votingGame_def)
  from majority_threshold [OF m] five
  have three: "getVoteThreshold ?g = 3"
    and c: "int (getVoteThreshold ?g) = \<lceil>real (length (members ?g)) / 2\<rceil>"
    and r: "thresholdReached 0 ?g
            = Inr (nat \<lceil>real (length (members ?g)) / 2\<rceil> \<le> length (vote_votes (votes ?g ! 0)))"
    using v by blast+
  from c three have "nat \<lceil>real (length (members ?g)) / 2\<rceil> = 3"
    by linarith
  with r t three show ?thesis
    by simp
qed

section \<open>Polled callbacks\<close>

text \<open>
  Claim C8, as the code has it.  Registering under a key that has a poll already leaves
  the stored callback and its arguments as they are: \<^verbatim>\<open>_addPoll\<close> only fills a
  free key, and replacing is what \<^verbatim>\<open>_updatePoll\<close> does.  Removing a key that has
  no poll changes nothing and raises nothing.
\<close>

theorem addPoll_keeps_existing:
  "(polls key = Some p \<longrightarrow>
      addPoll key cb as polls = polls
      \<and> updatePoll key (Some cb) (Some as) polls
          = Inr (polls(key \<mapsto> \<lparr>callback = cb, args = as\<rparr>)))
   \<and> (polls key = None \<longrightarrow>
        addPoll key cb as polls key = Some \<lparr>callback = cb, args = as\<rparr>
        \<and> removePoll key polls = polls)"
  by (simp add: addPoll_def updatePoll_def removePoll_def)

theorem addPoll_keeps_existing_witness:
  "addPoll ''new-controls'' ''view'' [''table'']
      (addPoll ''new-controls'' ''view'' [''tiles''] Map.empty)
     = addPoll ''new-controls'' ''view'' [''tiles''] Map.empty
   \<and> removePoll ''turn-results'' (Map.empty :: (string, string) Polls) = Map.empty"
proof -
  let ?polls = "addPoll ''new-controls'' ''view'' [''tiles''] (Map.empty :: (string, string) Polls)"
  have s: "?polls ''new-controls'' = Some \<lparr>callback = ''view'', args = [''tiles'']\<rparr>"
    by (simp add: addPoll_def)
  have n: "(Map.empty :: (string, string) Polls) ''turn-results'' = None"
    by simp
  from addPoll_keeps_existing [of ?polls "''new-controls''" _ "''view''" "[''table'']"] s
       addPoll_keeps_existing [of "Map.empty :: (string, string) Polls" "''turn-results''"] n
  show ?thesis
    by blast
qed

text \<open>
  Claim C8 as stated does not hold: after a second registration under the same key with
  other arguments, the poll still has the arguments of the first.
\<close>

theorem addPoll_replace_counterexample:
  "addPoll ''new-controls'' ''view'' [''table'']
      (addPoll ''new-controls'' ''view'' [''tiles''] Map.empty) ''new-controls''
     = Some \<lparr>callback = ''view'', args = [''tiles'']\<rparr>
   \<and> addPoll ''new-controls'' ''view'' [''table'']
      (addPoll ''new-controls'' ''view'' [''tiles''] Map.empty) ''new-controls''
     \<noteq> Some \<lparr>callback = ''view'', args = [''table'']\<rparr>"
  by (simp add: addPoll_def)

section \<open>The tally lookup of the simulate-turn vote\<close>



end
